theory Spec2Isabelle
  imports Main
begin

section \<open>Python values and errors\<close>

text \<open>
  The exceptions that the modelled code paths can raise. \<open>AttributeError\<close> is what an
  attribute read on \<open>None\<close> raises, \<open>TypeError\<close> what \<open>str(x)\<close> raises when
  \<open>__str__\<close> does not return a string and what \<open>%d\<close> raises on a non-number,
  \<open>KeyError\<close> what \<open>Logger.makeRecord\<close> raises when \<open>extra\<close> overwrites an attribute,
  \<open>ValueError\<close> what the \<open>%\<close>-style formatter raises for a field missing from the record,
  \<open>OSError\<close> a failure of \<open>os.makedirs\<close> or \<open>open\<close>, and \<open>SQLAlchemyError\<close> a failure
  of the database engine (connection or commit).
\<close>

datatype py_error =
  AttributeError | TypeError | KeyError | ValueError | OSError | SQLAlchemyError

text \<open>
  The values an attribute of a log record or a column of a row can hold. \<open>PyOther s\<close> is any
  other (non-numeric) object, such as the tuple \<open>error.args\<close> or the list of traceback lines,
  identified by its \<open>str()\<close> text \<open>s\<close>.
\<close>

datatype pyval = PyNone | PyStr string | PyInt int | PyOther string

text \<open>
  Sequencing of statements that may raise: the first exception raised ends the sequence.
\<close>

definition and_then :: "py_error + 'a \<Rightarrow> ('a \<Rightarrow> py_error + 'b) \<Rightarrow> py_error + 'b" where
  "and_then r k = (case r of Inl e \<Rightarrow> Inl e | Inr x \<Rightarrow> k x)"

definition of_opt_str :: "string option \<Rightarrow> pyval" where
  "of_opt_str x = (case x of None \<Rightarrow> PyNone | Some s \<Rightarrow> PyStr s)"

definition of_opt_int :: "int option \<Rightarrow> pyval" where
  "of_opt_int x = (case x of None \<Rightarrow> PyNone | Some i \<Rightarrow> PyInt i)"

section \<open>Stack frames and the caller-context resolver\<close>

text \<open>
  A frame object as \<open>inspect\<close> exposes it: \<open>f_code.co_name\<close>, \<open>f_lineno\<close>,
  \<open>f_globals.get("__name__")\<close>, the class name of \<open>f_locals["self"]\<close> when \<open>"self"\<close> is
  bound in \<open>f_locals\<close> (\<open>None\<close> when it is not), and \<open>f_back\<close>, the calling frame
  (\<open>None\<close> at the bottom of the stack).
\<close>

datatype frame =
  Frame (co_name: string) (f_lineno: int) (f_globals_name: "string option")
        (f_locals_self: "string option") (f_back: "frame option")

text \<open>
  Reading an attribute of the value held by a variable that may be \<open>None\<close>: on \<open>None\<close> the
  read raises \<open>AttributeError\<close>.
\<close>

definition getattr_frame :: "(frame \<Rightarrow> 'a) \<Rightarrow> frame option \<Rightarrow> py_error + 'a" where
  "getattr_frame field fr = (case fr of None \<Rightarrow> Inl AttributeError | Some f \<Rightarrow> Inr (field f))"

text \<open>The dictionary returned by \<open>loggers.AutoTracker.get_execution_info\<close>.\<close>

record exec_info =
  ei_function :: "string option"
  ei_lineno :: "int option"
  ei_module :: "string option"
  ei_class :: "string option"

text \<open>
  The loop \<open>for _ in range(3)\<close> of \<open>loggers.py\<close>, lines 43 to 49, with the number of
  iterations left, the variable \<open>frame\<close> and the variable \<open>last_available_frame\<close>; the
  result is \<open>last_available_frame\<close> at the end of the loop. \<open>hasattr(frame, "f_back")\<close> is
  true of every frame object.
\<close>

fun traverse :: "nat \<Rightarrow> frame option \<Rightarrow> frame option \<Rightarrow> py_error + frame option" where
  "traverse 0 frame last_available_frame = Inr last_available_frame"
| "traverse (Suc n) frame last_available_frame =
     (if frame \<noteq> None then
        and_then (getattr_frame f_back frame) (\<lambda>fb.
          if fb \<noteq> None then traverse n fb fb
          else traverse n fb last_available_frame)
      else Inr last_available_frame)"

text \<open>
  \<open>loggers.AutoTracker.get_execution_info\<close>. The argument is the value of
  \<open>inspect.currentframe()\<close>: the resolver's own frame, or \<open>None\<close> on an interpreter without
  frame support.
\<close>

definition frame_info :: "frame option \<Rightarrow> py_error + exec_info" where
  "frame_info fr =
     and_then (getattr_frame co_name fr) (\<lambda>fn.
     and_then (getattr_frame f_lineno fr) (\<lambda>ln.
     and_then (getattr_frame f_globals_name fr) (\<lambda>md.
     and_then (getattr_frame f_locals_self fr) (\<lambda>cl.
       Inr \<lparr>ei_function = Some fn, ei_lineno = Some ln, ei_module = md, ei_class = cl\<rparr>))))"

definition get_execution_info :: "frame option \<Rightarrow> py_error + exec_info" where
  "get_execution_info currentframe =
     and_then (traverse 3 currentframe currentframe) (\<lambda>last_available_frame.
       if last_available_frame \<noteq> None then frame_info last_available_frame
       else Inr \<lparr>ei_function = None, ei_lineno = None, ei_module = None, ei_class = None\<rparr>)"

text \<open>
  \<open>logging.AutoTracker.get_execution_info\<close> (the module \<open>logging.py\<close> of the package):
  \<open>inspect.currentframe().f_back.f_back.f_back\<close> with no test for \<open>None\<close>, then the three
  keys \<open>function\<close>, \<open>lineno\<close> and \<open>module\<close> read from that frame.
\<close>

record exec_info3 =
  ei3_function :: string
  ei3_lineno :: int
  ei3_module :: "string option"

definition legacy_get_execution_info :: "frame option \<Rightarrow> py_error + exec_info3" where
  "legacy_get_execution_info currentframe =
     and_then (getattr_frame f_back currentframe) (\<lambda>f1.
     and_then (getattr_frame f_back f1) (\<lambda>f2.
     and_then (getattr_frame f_back f2) (\<lambda>frame.
     and_then (getattr_frame co_name frame) (\<lambda>fn.
     and_then (getattr_frame f_lineno frame) (\<lambda>ln.
     and_then (getattr_frame f_globals_name frame) (\<lambda>md.
       Inr \<lparr>ei3_function = fn, ei3_lineno = ln, ei3_module = md\<rparr>))))))"

section \<open>Error capture\<close>

text \<open>
  An exception object, as far as \<open>ErrorTracker.capture_error\<close> reads it:
  \<open>type(error).__name__\<close>; the name \<open>traceback\<close> prints for the type (the qualified name,
  with the module in front for a type outside \<open>builtins\<close> and \<open>__main__\<close>); the outcome of
  \<open>str(error)\<close>, which runs the type's \<open>__str__\<close> and raises \<open>TypeError\<close> when that
  returns a non-string, as \<open>DBRecordsErrors.__str__\<close> of \<open>errors.py\<close> does for a non-string
  \<open>message\<close> and a false \<open>code\<close>; \<open>error.args\<close>; and \<open>error.__traceback__\<close>, \<open>None\<close>
  for an exception that was never raised, otherwise the entries that \<open>traceback.format_tb\<close>
  renders for it. The exception has no \<open>__cause__\<close> and no \<open>__context__\<close>.
\<close>

record py_exception =
  exc_type_name :: string
  exc_printed_name :: string
  exc_str :: "py_error + string"
  exc_args :: "pyval list"
  exc_traceback :: "string list option"

text \<open>
  \<open>traceback.format_exception_only\<close> and \<open>traceback.format_exception\<close> of the standard
  library, for such an exception: the header and the entries of the traceback when there is
  one, then the line with the type and the text of the exception. Inside \<open>traceback\<close> a failing
  \<open>str\<close> is replaced by a fixed text.
\<close>

definition format_exception_only :: "string \<Rightarrow> string \<Rightarrow> string list" where
  "format_exception_only stype valuestr =
     (if valuestr = [] then [stype @ ''\<newline>'']
      else [stype @ '': '' @ valuestr @ ''\<newline>''])"

definition safe_string :: "py_error + string \<Rightarrow> string" where
  "safe_string r = (case r of Inl e \<Rightarrow> ''<exception str() failed>'' | Inr s \<Rightarrow> s)"

definition format_exception :: "py_exception \<Rightarrow> string list" where
  "format_exception error =
     (case exc_traceback error of
        None \<Rightarrow> []
      | Some entries \<Rightarrow> ''Traceback (most recent call last):\<newline>'' # entries)
     @ format_exception_only (exc_printed_name error) (safe_string (exc_str error))"

text \<open>The dictionary built by \<open>loggers.ErrorTracker.capture_error\<close>, its values in key order.\<close>

record error_dict =
  error_type :: string
  error_message :: string
  error_args :: "pyval list"
  error_traceback :: "string list"

definition capture_error :: "py_exception \<Rightarrow> py_error + error_dict" where
  "capture_error error =
     and_then (exc_str error) (\<lambda>message.
       Inr \<lparr>error_type = exc_type_name error,
            error_message = message,
            error_args = exc_args error,
            error_traceback = format_exception error\<rparr>)"





section \<open>Log records, the record factory and the formatter\<close>

datatype level = DEBUG | INFO | WARNING | ERROR | CRITICAL

fun levelno :: "level \<Rightarrow> nat" where
  "levelno DEBUG = 10"
| "levelno INFO = 20"
| "levelno WARNING = 30"
| "levelno ERROR = 40"
| "levelno CRITICAL = 50"

fun getLevelName :: "level \<Rightarrow> string" where
  "getLevelName DEBUG = ''DEBUG''"
| "getLevelName INFO = ''INFO''"
| "getLevelName WARNING = ''WARNING''"
| "getLevelName ERROR = ''ERROR''"
| "getLevelName CRITICAL = ''CRITICAL''"

text \<open>
  A \<open>logging.LogRecord\<close>: its name, level, message text (\<open>msg\<close>; the level methods are
  modelled for calls without positional arguments, where \<open>getMessage()\<close> is \<open>msg\<close>), the
  rendered creation time, the text \<open>formatException\<close> gives for \<open>exc_info\<close> when
  \<open>exc_info\<close> was asked for, and the attributes added to its \<open>__dict__\<close> beyond the
  standard ones.
\<close>

record log_record =
  rec_name :: string
  rec_lvl :: level
  rec_msg :: string
  rec_asctime :: string
  rec_exc_info :: "string option"
  rec_attrs :: "string \<rightharpoonup> pyval"

text \<open>
  The value of the process-wide \<open>logging._logRecordFactory\<close>: the class \<open>LogRecord\<close>, or a
  closure \<open>record_factory\<close> made by \<open>Logger._log\<close>, which holds its \<open>exec_info\<close> and its
  \<open>old_factory\<close>.
\<close>

datatype factory = LogRecord | record_factory exec_info factory

fun call_factory :: "factory \<Rightarrow> string \<Rightarrow> level \<Rightarrow> string \<Rightarrow> string \<Rightarrow> string option \<Rightarrow> log_record" where
  "call_factory LogRecord nm lvl msg created exc =
     \<lparr>rec_name = nm, rec_lvl = lvl, rec_msg = msg, rec_asctime = created,
      rec_exc_info = exc, rec_attrs = Map.empty\<rparr>"
| "call_factory (record_factory exec_info old_factory) nm lvl msg created exc =
     (let record = call_factory old_factory nm lvl msg created exc
      in record\<lparr>rec_attrs := (rec_attrs record)
           (''custom_function'' \<mapsto> of_opt_str (ei_function exec_info),
            ''custom_lineno'' \<mapsto> of_opt_int (ei_lineno exec_info),
            ''custom_module'' \<mapsto> of_opt_str (ei_module exec_info))\<rparr>)"

text \<open>
  The names \<open>Logger.makeRecord\<close> refuses in \<open>extra\<close>: \<open>message\<close>, \<open>asctime\<close> and every key
  of the record's \<open>__dict__\<close>, which holds the standard attributes and the added ones.
\<close>

definition standard_attrs :: "string list" where
  "standard_attrs =
     [''name'', ''msg'', ''args'', ''levelname'', ''levelno'', ''pathname'', ''filename'',
      ''module'', ''exc_info'', ''exc_text'', ''stack_info'', ''lineno'', ''funcName'',
      ''created'', ''msecs'', ''relativeCreated'', ''thread'', ''threadName'',
      ''processName'', ''process'', ''taskName'']"

definition refused_key :: "log_record \<Rightarrow> string \<Rightarrow> bool" where
  "refused_key rv k \<longleftrightarrow>
     k = ''message'' \<or> k = ''asctime'' \<or> k \<in> set standard_attrs \<or> rec_attrs rv k \<noteq> None"

fun set_extra :: "(string \<times> pyval) list \<Rightarrow> log_record \<Rightarrow> py_error + log_record" where
  "set_extra [] rv = Inr rv"
| "set_extra ((k, v) # extra) rv =
     (if refused_key rv k then Inl KeyError
      else set_extra extra (rv\<lparr>rec_attrs := (rec_attrs rv)(k \<mapsto> v)\<rparr>))"

definition makeRecord ::
  "factory \<Rightarrow> string \<Rightarrow> level \<Rightarrow> string \<Rightarrow> string \<Rightarrow> string option \<Rightarrow> (string \<times> pyval) list
     \<Rightarrow> py_error + log_record" where
  "makeRecord fac nm lvl msg created exc extra =
     set_extra extra (call_factory fac nm lvl msg created exc)"

text \<open>Decimal rendering, for \<open>%d\<close> and for \<open>str\<close> of an integer.\<close>

fun show_nat :: "nat \<Rightarrow> string" where
  "show_nat n =
     (if n < 10 then [''0123456789'' ! n]
      else show_nat (n div 10) @ [''0123456789'' ! (n mod 10)])"

declare show_nat.simps [simp del]

definition show_int :: "int \<Rightarrow> string" where
  "show_int i = (if i < 0 then ''-'' @ show_nat (nat (- i)) else show_nat (nat i))"

definition percent_s :: "pyval \<Rightarrow> string" where
  "percent_s v =
     (case v of PyNone \<Rightarrow> ''None'' | PyStr s \<Rightarrow> s | PyInt i \<Rightarrow> show_int i | PyOther s \<Rightarrow> s)"

definition percent_d :: "pyval \<Rightarrow> py_error + string" where
  "percent_d v = (case v of PyInt i \<Rightarrow> Inr (show_int i) | _ \<Rightarrow> Inl TypeError)"

definition record_field :: "log_record \<Rightarrow> string \<Rightarrow> py_error + pyval" where
  "record_field record k = (case rec_attrs record k of None \<Rightarrow> Inl ValueError | Some v \<Rightarrow> Inr v)"

text \<open>
  \<open>Formatter.format\<close> for the two format strings of \<open>_setup_logger\<close>,
  \<open>%(asctime)s - %(name)s - %(levelname)s - %(message)s -> %(custom_module)s -
  %(custom_function)s - %(custom_lineno)d\<close> and the same without \<open>%(asctime)s - \<close>; the
  flag says whether \<open>asctime\<close> is in. The text of the exception follows on a new line
  when the record has one.
\<close>

definition format_record :: "bool \<Rightarrow> log_record \<Rightarrow> py_error + string" where
  "format_record with_asctime record =
     and_then (record_field record ''custom_module'') (\<lambda>m.
     and_then (record_field record ''custom_function'') (\<lambda>f.
     and_then (record_field record ''custom_lineno'') (\<lambda>l.
     and_then (percent_d l) (\<lambda>ln.
       let s = (if with_asctime then rec_asctime record @ '' - '' else [])
                 @ rec_name record @ '' - '' @ getLevelName (rec_lvl record) @ '' - ''
                 @ rec_msg record @ '' -> '' @ percent_s m @ '' - '' @ percent_s f
                 @ '' - '' @ ln
       in Inr (case rec_exc_info record of
                 None \<Rightarrow> s
               | Some exc_text \<Rightarrow> if exc_text = [] then s else s @ ''\<newline>'' @ exc_text)))))"

section \<open>Handlers, the database sink and the process state\<close>

text \<open>
  A handler attached to a \<open>logging\<close> logger: which object it is, which class
  (\<open>StreamHandler\<close>, \<open>FileHandler\<close> with its path, \<open>SQLAlchemyLogHandler\<close>), its level and
  whether its formatter has \<open>asctime\<close>.
\<close>

datatype sink = Console | File string | Database

record handler =
  h_id :: nat
  h_sink :: sink
  h_level :: level
  h_asctime :: bool

text \<open>The columns of \<open>Log\<close> that \<open>store_log\<close> sets; \<open>PyNone\<close> is stored as null.\<close>

record row =
  name_logger :: pyval
  level_col :: pyval
  message :: pyval
  module_col :: pyval
  classname :: pyval
  func_name :: pyval
  lineno :: pyval
  error_type_col :: pyval
  error_message_col :: pyval
  error_args_col :: pyval
  error_traceback_col :: pyval

text \<open>
  A \<open>Logger\<close> object of \<open>loggers.py\<close>: the name of its class, its attributes
  \<open>formatter_type\<close>, \<open>log_file\<close> and \<open>name\<close>, and \<open>_logger\<close>, given by the name under
  which \<open>logging.getLogger\<close> holds it.
\<close>

record facade =
  lg_class :: string
  lg_formatter_type :: "string option"
  lg_log_file :: "string option"
  lg_name :: "string option"
  lg_logger :: string

text \<open>
  The state of the process and of its surroundings.
  \<^item> Of \<open>logging\<close>: the record factory and the handlers of each named logger.
  \<^item> Of the package: the objects allocated (handlers \<open>0 ..< next_hid\<close>, facades
    \<open>0 ..< next_oid\<close> held in \<open>heap\<close>) and \<open>LoggerManager._loggers\<close>.
  \<^item> Of the sinks: the lines written to each stream handler's stream, the handlers whose
    file is open, the reports \<open>Handler.handleError\<close> printed, the rows committed and the
    sessions that are open, each with the rows added and not committed.
  \<^item> Of the surroundings: the clock, the text of the exception being handled (what
    \<open>formatException(sys.exc_info())\<close> gives, \<open>NoneType: None\<close> outside a handler), and
    which operations fail: creating the directory of a path and opening it, writing to a
    handler's stream, reaching the database, committing.
  \<^item> \<open>offered\<close> is not program state: it lists, in order, the calls
    \<open>Handler.handle(record)\<close> made, for stating what each sink was given.
\<close>

record world =
  logRecordFactory :: factory
  handlers_of :: "string \<Rightarrow> handler list"
  next_hid :: nat
  next_oid :: nat
  heap :: "nat \<Rightarrow> facade"
  loggers_dict :: "string \<rightharpoonup> nat"
  streams :: "nat \<Rightarrow> string list"
  open_files :: "(nat \<times> string) list"
  stderr_reports :: "nat list"
  db_rows :: "row list"
  open_sessions :: "row list list"
  clock :: string
  exc_text :: string
  fs_fails :: "string \<Rightarrow> bool"
  write_fails :: "nat \<Rightarrow> bool"
  db_down :: bool
  commit_fails :: bool
  offered :: "(nat \<times> log_record) list"

text \<open>
  \<open>StreamHandler.emit\<close> of the standard library, which \<open>FileHandler.emit\<close> calls on its
  open stream: format, write the line; any exception of the two is caught and given to
  \<open>handleError\<close>, which reports on standard error and returns.
\<close>

definition handleError :: "handler \<Rightarrow> world \<Rightarrow> world" where
  "handleError h w = w\<lparr>stderr_reports := stderr_reports w @ [h_id h]\<rparr>"

definition StreamHandler_emit :: "handler \<Rightarrow> log_record \<Rightarrow> world \<Rightarrow> world" where
  "StreamHandler_emit h record w =
     (case format_record (h_asctime h) record of
        Inl e \<Rightarrow> handleError h w
      | Inr msg \<Rightarrow>
          if write_fails w (h_id h) then handleError h w
          else w\<lparr>streams := (streams w)(h_id h := streams w (h_id h) @ [msg @ ''\<newline>''])\<rparr>)"

text \<open>
  The session of \<open>store_log\<close>: \<open>self.Session()\<close> opens one more session, \<open>add\<close> puts the
  row in it, \<open>commit\<close> writes its rows or raises and writes nothing, \<open>close\<close> ends it.
  \<open>open_sessions\<close> has the session opened last in front; these operations act on that one.
\<close>

definition Session :: "world \<Rightarrow> world" where
  "Session w = w\<lparr>open_sessions := [] # open_sessions w\<rparr>"

definition session_add :: "row \<Rightarrow> world \<Rightarrow> world" where
  "session_add log w =
     (case open_sessions w of
        [] \<Rightarrow> w
      | session # others \<Rightarrow> w\<lparr>open_sessions := (session @ [log]) # others\<rparr>)"

definition session_commit :: "world \<Rightarrow> (py_error + unit) \<times> world" where
  "session_commit w =
     (if commit_fails w then (Inl SQLAlchemyError, w)
      else case open_sessions w of
        [] \<Rightarrow> (Inr (), w)
      | session # others \<Rightarrow>
          (Inr (), w\<lparr>db_rows := db_rows w @ session, open_sessions := [] # others\<rparr>))"

definition session_close :: "world \<Rightarrow> world" where
  "session_close w = w\<lparr>open_sessions := tl (open_sessions w)\<rparr>"

text \<open>\<open>SQLAlchemyLogHandler.store_log\<close>, \<open>loggers.py\<close> lines 169 to 178.\<close>

definition store_log :: "row \<Rightarrow> world \<Rightarrow> (py_error + unit) \<times> world" where
  "store_log log w =
     (let w1 = Session w;
          w2 = session_add log w1
      in case session_commit w2 of
           (Inl e, w3) \<Rightarrow> (Inl e, w3)
         | (Inr u, w3) \<Rightarrow> (Inr (), session_close w3))"

text \<open>\<open>getattr(record, k, default)\<close> for an attribute \<open>k\<close> that is not a standard one.\<close>

definition getattr_record :: "log_record \<Rightarrow> string \<Rightarrow> pyval \<Rightarrow> pyval" where
  "getattr_record record k dflt = (case rec_attrs record k of None \<Rightarrow> dflt | Some v \<Rightarrow> v)"

text \<open>The arguments \<open>emit\<close> passes to \<open>store_log\<close>, \<open>loggers.py\<close> lines 182 to 194.\<close>

definition row_of :: "log_record \<Rightarrow> string \<Rightarrow> row" where
  "row_of record log_entry =
     \<lparr>name_logger = PyStr (rec_name record),
      level_col = PyStr (getLevelName (rec_lvl record)),
      message = PyStr log_entry,
      module_col = getattr_record record ''custom_module'' (PyStr ''NA''),
      classname = getattr_record record ''custom_class'' (PyStr ''NA''),
      func_name = getattr_record record ''custom_function'' (PyStr ''NA''),
      lineno = getattr_record record ''custom_lineno'' (PyInt (- 1)),
      error_type_col = getattr_record record ''error_type'' (PyStr ''NA''),
      error_message_col = getattr_record record ''error_message'' (PyStr ''NA''),
      error_args_col = getattr_record record ''error_args'' (PyStr ''NA''),
      error_traceback_col = getattr_record record ''error_traceback'' (PyStr ''NA'')\<rparr>"

text \<open>\<open>SQLAlchemyLogHandler.emit\<close>: nothing is caught.\<close>

definition SQLAlchemyLogHandler_emit :: "handler \<Rightarrow> log_record \<Rightarrow> world \<Rightarrow> (py_error + unit) \<times> world" where
  "SQLAlchemyLogHandler_emit h record w =
     (case format_record (h_asctime h) record of
        Inl e \<Rightarrow> (Inl e, w)
      | Inr log_entry \<Rightarrow> store_log (row_of record log_entry) w)"

section \<open>Dispatch: the standard library's logger and \<open>Logger._log\<close>\<close>

text \<open>
  \<open>Handler.handle\<close> and \<open>Logger.callHandlers\<close> of the standard library: the handlers of
  the logger in order, each one whose level is not above the record's; an exception of
  \<open>emit\<close> ends the loop and goes on to the caller. (Handlers of parent loggers, which
  \<open>callHandlers\<close> visits next, are set outside this package and are left out.)
\<close>

definition emit :: "handler \<Rightarrow> log_record \<Rightarrow> world \<Rightarrow> (py_error + unit) \<times> world" where
  "emit h record w =
     (case h_sink h of
        Console \<Rightarrow> (Inr (), StreamHandler_emit h record w)
      | File path \<Rightarrow> (Inr (), StreamHandler_emit h record w)
      | Database \<Rightarrow> SQLAlchemyLogHandler_emit h record w)"

definition handle :: "handler \<Rightarrow> log_record \<Rightarrow> world \<Rightarrow> (py_error + unit) \<times> world" where
  "handle h record w = emit h record (w\<lparr>offered := offered w @ [(h_id h, record)]\<rparr>)"

text \<open>The test \<open>record.levelno >= hdlr.level\<close> of \<open>callHandlers\<close>.\<close>

definition takes :: "log_record \<Rightarrow> handler \<Rightarrow> bool" where
  "takes record h \<longleftrightarrow> levelno (h_level h) \<le> levelno (rec_lvl record)"

fun callHandlers :: "handler list \<Rightarrow> log_record \<Rightarrow> world \<Rightarrow> (py_error + unit) \<times> world" where
  "callHandlers [] record w = (Inr (), w)"
| "callHandlers (h # hs) record w =
     (if takes record h then
        (case handle h record w of
           (Inl e, w') \<Rightarrow> (Inl e, w')
         | (Inr u, w') \<Rightarrow> callHandlers hs record w')
      else callHandlers hs record w)"

text \<open>
  \<open>logging.Logger.log(level, msg, exc_info=..., extra=...)\<close> on the logger named \<open>nm\<close>,
  whose level \<open>_setup_logger\<close> has set to \<open>DEBUG\<close>: make the record with the factory now
  installed, then call the handlers.
\<close>

definition Logger_log ::
  "string \<Rightarrow> level \<Rightarrow> string \<Rightarrow> bool \<Rightarrow> (string \<times> pyval) list \<Rightarrow> world \<Rightarrow> (py_error + unit) \<times> world" where
  "Logger_log nm lvl msg exc_info extra w =
     (case makeRecord (logRecordFactory w) nm lvl msg (clock w)
             (if exc_info then Some (exc_text w) else None) extra of
        Inl e \<Rightarrow> (Inl e, w)
      | Inr record \<Rightarrow> callHandlers (handlers_of w nm) record w)"

text \<open>\<open>__name__\<close> in \<open>loggers.py\<close>.\<close>

definition loggers_name :: string where
  "loggers_name = ''logger_system.loggers''"

text \<open>
  The frames of the logging facility, as the resolver finds them: a method of a \<open>Logger\<close>
  called from the frame \<open>back\<close> and standing at line \<open>ln\<close>, and the resolver's own frame,
  a static method, which stands at line 53 when it reads the last available frame.
\<close>

definition method_frame :: "facade \<Rightarrow> string \<Rightarrow> int \<Rightarrow> frame option \<Rightarrow> frame option" where
  "method_frame self nm ln back = Some (Frame nm ln (Some loggers_name) (Some (lg_class self)) back)"

definition resolver_frame :: "frame option \<Rightarrow> frame option" where
  "resolver_frame back = Some (Frame ''get_execution_info'' 53 (Some loggers_name) None back)"

text \<open>
  \<open>Logger._log\<close>, \<open>loggers.py\<close> lines 115 to 134, called from the frame \<open>back\<close> (the frame
  of a level method), in three parts: up to \<open>logging.setLogRecordFactory(record_factory)\<close>,
  the \<open>try\<close> block, and the \<open>finally\<close> block.
\<close>

definition log_resolve :: "facade \<Rightarrow> frame option \<Rightarrow> py_error + exec_info" where
  "log_resolve self back = get_execution_info (resolver_frame (method_frame self ''_log'' 116 back))"

definition log_install :: "exec_info \<Rightarrow> world \<Rightarrow> factory \<times> world" where
  "log_install exec_info w =
     (let old_factory = logRecordFactory w
      in (old_factory, w\<lparr>logRecordFactory := record_factory exec_info old_factory\<rparr>))"

definition log_restore :: "factory \<Rightarrow> world \<Rightarrow> world" where
  "log_restore old_factory w = w\<lparr>logRecordFactory := old_factory\<rparr>"

definition facade_log ::
  "facade \<Rightarrow> frame option \<Rightarrow> level \<Rightarrow> string \<Rightarrow> bool \<Rightarrow> (string \<times> pyval) list \<Rightarrow> world
     \<Rightarrow> (py_error + unit) \<times> world" where
  "facade_log self back lvl msg exc_info extra w =
     (case log_resolve self back of
        Inl e \<Rightarrow> (Inl e, w)
      | Inr exec_info \<Rightarrow>
          (case log_install exec_info w of (old_factory, w1) \<Rightarrow>
           case Logger_log (lg_logger self) lvl msg exc_info extra w1 of (result, w2) \<Rightarrow>
             (result, log_restore old_factory w2)))"

text \<open>
  The level methods of \<open>Logger\<close>, \<open>loggers.py\<close> lines 136 to 151, called with the message
  alone from the frame \<open>caller\<close>, and \<open>error\<close> and \<open>critical\<close> of \<open>PostgreSQLLogger\<close>,
  lines 235 to 239, with \<open>error_info\<close> (\<open>None\<close> or a dictionary).
\<close>

definition debug :: "facade \<Rightarrow> frame option \<Rightarrow> string \<Rightarrow> world \<Rightarrow> (py_error + unit) \<times> world" where
  "debug self caller msg =
     facade_log self (method_frame self ''debug'' 137 caller) DEBUG (''Debug: '' @ msg) False []"

definition info :: "facade \<Rightarrow> frame option \<Rightarrow> string \<Rightarrow> world \<Rightarrow> (py_error + unit) \<times> world" where
  "info self caller msg =
     facade_log self (method_frame self ''info'' 140 caller) INFO (''Info: '' @ msg) False []"

definition warning :: "facade \<Rightarrow> frame option \<Rightarrow> string \<Rightarrow> world \<Rightarrow> (py_error + unit) \<times> world" where
  "warning self caller msg =
     facade_log self (method_frame self ''warning'' 143 caller) WARNING (''Warning: '' @ msg) False []"

definition error :: "facade \<Rightarrow> frame option \<Rightarrow> string \<Rightarrow> world \<Rightarrow> (py_error + unit) \<times> world" where
  "error self caller msg =
     facade_log self (method_frame self ''error'' 146 caller) ERROR (''Error: '' @ msg) True []"

definition critical :: "facade \<Rightarrow> frame option \<Rightarrow> string \<Rightarrow> world \<Rightarrow> (py_error + unit) \<times> world" where
  "critical self caller msg =
     facade_log self (method_frame self ''critical'' 149 caller) CRITICAL (''Critical: '' @ msg) True []"

definition PostgreSQLLogger_error ::
  "facade \<Rightarrow> frame option \<Rightarrow> string \<Rightarrow> (string \<times> pyval) list option \<Rightarrow> world
     \<Rightarrow> (py_error + unit) \<times> world" where
  "PostgreSQLLogger_error self caller msg error_info =
     facade_log self (method_frame self ''error'' 236 caller) ERROR (''Error: '' @ msg) True
       (case error_info of None \<Rightarrow> [] | Some d \<Rightarrow> d)"

definition PostgreSQLLogger_critical ::
  "facade \<Rightarrow> frame option \<Rightarrow> string \<Rightarrow> (string \<times> pyval) list option \<Rightarrow> world
     \<Rightarrow> (py_error + unit) \<times> world" where
  "PostgreSQLLogger_critical self caller msg error_info =
     facade_log self (method_frame self ''critical'' 239 caller) CRITICAL (''Critical: '' @ msg) True
       (case error_info of None \<Rightarrow> [] | Some d \<Rightarrow> d)"


text \<open>The capitalised name of the level, a colon and a space.\<close>

fun prefix_of :: "level \<Rightarrow> string" where
  "prefix_of DEBUG = ''Debug: ''"
| "prefix_of INFO = ''Info: ''"
| "prefix_of WARNING = ''Warning: ''"
| "prefix_of ERROR = ''Error: ''"
| "prefix_of CRITICAL = ''Critical: ''"

section \<open>Provisioning of sinks and the registry\<close>

text \<open>\<open>self.name or __name__\<close>: \<open>None\<close> and the empty string give the module's name.\<close>

definition name_or_module :: "string option \<Rightarrow> string" where
  "name_or_module nm =
     (case nm of None \<Rightarrow> loggers_name | Some n \<Rightarrow> if n = [] then loggers_name else n)"

text \<open>
  Constructing a handler allocates a new object; \<open>addHandler\<close> appends it to the handlers
  of the named logger; the loop over \<open>handlers[:]\<close> with \<open>removeHandler\<close> empties the list
  and closes nothing.
\<close>

definition new_handler :: "sink \<Rightarrow> level \<Rightarrow> bool \<Rightarrow> world \<Rightarrow> handler \<times> world" where
  "new_handler snk lvl with_asctime w =
     (\<lparr>h_id = next_hid w, h_sink = snk, h_level = lvl, h_asctime = with_asctime\<rparr>,
      w\<lparr>next_hid := Suc (next_hid w)\<rparr>)"

definition addHandler :: "string \<Rightarrow> handler \<Rightarrow> world \<Rightarrow> world" where
  "addHandler nm h w = w\<lparr>handlers_of := (handlers_of w)(nm := handlers_of w nm @ [h])\<rparr>"

definition remove_handlers :: "string \<Rightarrow> world \<Rightarrow> world" where
  "remove_handlers nm w = w\<lparr>handlers_of := (handlers_of w)(nm := [])\<rparr>"

definition add_console :: "string \<Rightarrow> level \<Rightarrow> bool \<Rightarrow> world \<Rightarrow> world" where
  "add_console nm lvl with_asctime w =
     (case new_handler Console lvl with_asctime w of (console_handler, w1) \<Rightarrow>
        addHandler nm console_handler w1)"

text \<open>
  \<open>Logger._setup_logger\<close>, \<open>loggers.py\<close> lines 80 to 109. The result has the exception if
  one was raised, the object with \<open>_logger\<close> set, and the state. \<open>os.makedirs\<close> of the
  directory of \<open>log_file\<close> or the opening of the file by \<open>FileHandler\<close> may raise.
\<close>

definition setup_logger :: "facade \<Rightarrow> world \<Rightarrow> (py_error + unit) \<times> facade \<times> world" where
  "setup_logger self w =
     (let nm = name_or_module (lg_name self);
          self1 = self\<lparr>lg_logger := nm\<rparr>;
          w1 = remove_handlers nm w;
          with_asctime = (lg_formatter_type self = Some ''local'')
      in case lg_log_file self of
           None \<Rightarrow> (Inr (), self1, add_console nm DEBUG with_asctime w1)
         | Some path \<Rightarrow>
             if path = [] then (Inr (), self1, add_console nm DEBUG with_asctime w1)
             else if fs_fails w1 path then (Inl OSError, self1, w1)
             else (case new_handler (File path) DEBUG with_asctime w1 of (file_handler, w2) \<Rightarrow>
                     (Inr (), self1,
                      add_console nm DEBUG with_asctime
                        (addHandler nm file_handler
                           (w2\<lparr>open_files := open_files w2 @ [(h_id file_handler, path)]\<rparr>)))))"

text \<open>
  \<open>Logger.__init__\<close> and \<open>Logger.set_name\<close>. Before \<open>_setup_logger\<close> has run the object
  has no \<open>_logger\<close>; the empty name stands for that.
\<close>

definition Logger_init ::
  "string option \<Rightarrow> string option \<Rightarrow> string option \<Rightarrow> world \<Rightarrow> (py_error + facade) \<times> world" where
  "Logger_init formatter_type log_file nm w =
     (case setup_logger \<lparr>lg_class = ''Logger'', lg_formatter_type = formatter_type,
                          lg_log_file = log_file, lg_name = nm, lg_logger = []\<rparr> w of
        (Inl e, self, w1) \<Rightarrow> (Inl e, w1)
      | (Inr u, self, w1) \<Rightarrow> (Inr self, w1))"



text \<open>
  \<open>PostgreSQLLogger._setup_logger\<close> and \<open>PostgreSQLLogger.__init__\<close>, \<open>loggers.py\<close> lines
  198 to 233: the database handler at \<open>DEBUG\<close>, then the console handler at \<open>INFO\<close>, both
  with \<open>asctime\<close>. \<open>SQLAlchemyLogHandler.__init__\<close> creates the table and raises when the
  database cannot be reached.
\<close>

definition PostgreSQLLogger_setup_logger :: "facade \<Rightarrow> world \<Rightarrow> (py_error + unit) \<times> facade \<times> world" where
  "PostgreSQLLogger_setup_logger self w =
     (let nm = name_or_module (lg_name self);
          self1 = self\<lparr>lg_logger := nm\<rparr>;
          w1 = remove_handlers nm w
      in if db_down w1 then (Inl SQLAlchemyError, self1, w1)
         else (case new_handler Database DEBUG True w1 of (db_handler, w2) \<Rightarrow>
                 (Inr (), self1, add_console nm INFO True (addHandler nm db_handler w2))))"

definition PostgreSQLLogger_init ::
  "string option \<Rightarrow> string option \<Rightarrow> world \<Rightarrow> (py_error + facade) \<times> world" where
  "PostgreSQLLogger_init nm formatter_type w =
     (case PostgreSQLLogger_setup_logger
             \<lparr>lg_class = ''PostgreSQLLogger'', lg_formatter_type = formatter_type,
              lg_log_file = None, lg_name = nm, lg_logger = []\<rparr> w of
        (Inl e, self, w1) \<Rightarrow> (Inl e, w1)
      | (Inr u, self, w1) \<Rightarrow> (Inr self, w1))"

text \<open>
  A process that has just imported the package: the factory is \<open>LogRecord\<close>, no logger has
  a handler, nothing is allocated, written or stored, no exception is being handled, and
  nothing fails.
\<close>

definition fresh :: world where
  "fresh =
     \<lparr>logRecordFactory = LogRecord, handlers_of = (\<lambda>nm. []), next_hid = 0, next_oid = 0,
      heap = (\<lambda>oid. \<lparr>lg_class = [], lg_formatter_type = None, lg_log_file = None,
                      lg_name = None, lg_logger = []\<rparr>),
      loggers_dict = Map.empty, streams = (\<lambda>h. []), open_files = [], stderr_reports = [],
      db_rows = [], open_sessions = [], clock = ''2024-01-01 00:00:00,000'',
      exc_text = ''NoneType: None'', fs_fails = (\<lambda>p. False), write_fails = (\<lambda>h. False),
      db_down = False, commit_fails = False, offered = []\<rparr>"

text \<open>An application frame: \<open>main\<close> of the module \<open>app\<close> at line 42, called from nowhere.\<close>

definition app_frame :: frame where
  "app_frame = Frame ''main'' 42 (Some ''app'') None None"

section \<open>Values used in the statements and examples\<close>

text \<open>
  The record a level method of a \<open>Logger\<close> builds when the resolver returned \<open>exec_info\<close>:
  the one the factory installed by \<open>_log\<close> makes from the prefixed message.
\<close>

definition built_record :: "exec_info \<Rightarrow> facade \<Rightarrow> level \<Rightarrow> string \<Rightarrow> world \<Rightarrow> log_record" where
  "built_record exec_info self L msg w =
     call_factory (record_factory exec_info (logRecordFactory w)) (lg_logger self) L
       (prefix_of L @ msg) (clock w)
       (if L = ERROR \<or> L = CRITICAL then Some (exc_text w) else None)"

text \<open>
  \<open>AutoTracker.get_execution_info()\<close> of \<open>logging.py\<close> called at the top level of a script:
  the stack has the resolver's frame (at line 25) and the frame of the module.
\<close>

definition module_level :: "frame option" where
  "module_level =
     Some (Frame ''get_execution_info'' 25 (Some ''logger_system.logging'') None
       (Some (Frame ''<module>'' 3 (Some ''__main__'') None None)))"

text \<open>
  \<open>Logger("local", None, "app")\<close> in a fresh process: the object, its console handler and
  the state after the constructor.
\<close>

definition app_logger :: facade where
  "app_logger =
     \<lparr>lg_class = ''Logger'', lg_formatter_type = Some ''local'', lg_log_file = None,
      lg_name = Some ''app'', lg_logger = ''app''\<rparr>"

definition console0 :: handler where
  "console0 = \<lparr>h_id = 0, h_sink = Console, h_level = DEBUG, h_asctime = True\<rparr>"

definition app_world :: world where
  "app_world = fresh\<lparr>handlers_of := (\<lambda>nm. [])(''app'' := [console0]), next_hid := 1\<rparr>"


text \<open>
  \<open>PostgreSQLLogger(base, "db")\<close> in a fresh process: the object, its database handler
  and console handler, the state after the constructor, and that state with a database
  whose commits fail.
\<close>

definition db_logger :: facade where
  "db_logger =
     \<lparr>lg_class = ''PostgreSQLLogger'', lg_formatter_type = Some ''local'', lg_log_file = None,
      lg_name = Some ''db'', lg_logger = ''db''\<rparr>"

definition db0 :: handler where
  "db0 = \<lparr>h_id = 0, h_sink = Database, h_level = DEBUG, h_asctime = True\<rparr>"

definition console1 :: handler where
  "console1 = \<lparr>h_id = 1, h_sink = Console, h_level = INFO, h_asctime = True\<rparr>"

definition db_world :: world where
  "db_world = fresh\<lparr>handlers_of := (\<lambda>nm. [])(''db'' := [db0, console1]), next_hid := 2\<rparr>"


text \<open>
  The context of a call from \<open>app_frame\<close>, and the record \<open>info("hello")\<close> of \<open>db_logger\<close>
  builds for it in \<open>db_world\<close>.
\<close>

definition main_info :: exec_info where
  "main_info =
     \<lparr>ei_function = Some ''main'', ei_lineno = Some 42, ei_module = Some ''app'', ei_class = None\<rparr>"

definition info_record :: log_record where
  "info_record = built_record main_info db_logger INFO ''hello'' db_world"

definition info_entry :: string where
  "info_entry = ''2024-01-01 00:00:00,000 - db - INFO - Info: hello -> app - main - 42''"



section \<open>Proofs\<close>

subsection \<open>Evaluation\<close>

lemma store_log_cases:
  "store_log log w =
     (if commit_fails w then (Inl SQLAlchemyError, w\<lparr>open_sessions := [log] # open_sessions w\<rparr>)
      else (Inr (), w\<lparr>db_rows := db_rows w @ [log]\<rparr>))"
  by (simp add: store_log_def Session_def session_add_def session_commit_def session_close_def)

lemma show_int_42: "show_int 42 = ''42''"
  by (simp add: show_int_def show_nat.simps)

lemmas eval_defs =
  debug_def info_def warning_def error_def critical_def facade_log_def log_resolve_def
  get_execution_info_def resolver_frame_def method_frame_def numeral_3_eq_3 getattr_frame_def
  and_then_def frame_info_def log_install_def log_restore_def Logger_log_def makeRecord_def Let_def
  takes_def handle_def emit_def StreamHandler_emit_def handleError_def format_record_def
  record_field_def percent_d_def percent_s_def of_opt_str_def of_opt_int_def
  SQLAlchemyLogHandler_emit_def store_log_cases row_of_def getattr_record_def

lemma Logger_init_app:
  "Logger_init (Some ''local'') None (Some ''app'') fresh = (Inr app_logger, app_world)"
  by (simp add: Logger_init_def setup_logger_def name_or_module_def remove_handlers_def
      add_console_def new_handler_def addHandler_def fresh_def app_logger_def app_world_def
      console0_def Let_def)



lemma debug_app_stream:
  "streams (snd (debug app_logger (Some app_frame) ''hello'' app_world)) 0 =
     [''2024-01-01 00:00:00,000 - app - DEBUG - Debug: hello -> app - main - 42\<newline>'']"
  by (simp add: eval_defs app_logger_def app_world_def console0_def fresh_def app_frame_def
      show_int_42)

subsection \<open>The resolver\<close>

lemma traverse_total: "\<exists>r. traverse n fr lst = Inr r"
  by (induction n arbitrary: fr lst) (auto simp: getattr_frame_def and_then_def split: option.splits)

lemma traverse_some: "lst \<noteq> None \<Longrightarrow> traverse n fr lst = Inr r \<Longrightarrow> r \<noteq> None"
  by (induction n arbitrary: fr lst)
     (auto simp: getattr_frame_def and_then_def split: option.splits if_splits)

text \<open>
  \<open>get_execution_info\<close> of \<open>loggers.py\<close> returns a context on every stack, also when
  \<open>inspect.currentframe()\<close> is \<open>None\<close>.
\<close>

lemma get_execution_info_total: "\<exists>ctx. get_execution_info cf = Inr ctx"
proof -
  obtain r where r: "traverse 3 cf cf = Inr r"
    using traverse_total by blast
  show ?thesis
    by (cases r) (simp_all add: get_execution_info_def r frame_info_def getattr_frame_def and_then_def)
qed

lemma resolve_caller:
  "log_resolve self (method_frame self nm ln (Some c)) =
     Inr \<lparr>ei_function = Some (co_name c), ei_lineno = Some (f_lineno c),
          ei_module = f_globals_name c, ei_class = f_locals_self c\<rparr>"
  by (simp add: log_resolve_def get_execution_info_def resolver_frame_def method_frame_def
      numeral_3_eq_3 getattr_frame_def and_then_def frame_info_def)

lemma log_resolve_total:
  "\<exists>fn ln md cl. log_resolve self back =
      Inr \<lparr>ei_function = Some fn, ei_lineno = Some ln, ei_module = md, ei_class = cl\<rparr>"
proof -
  let ?cf = "resolver_frame (method_frame self ''_log'' 116 back)"
  obtain r where r: "traverse 3 ?cf ?cf = Inr r" using traverse_total by blast
  have "?cf \<noteq> None" by (simp add: resolver_frame_def)
  from traverse_some[OF this r] obtain f where "r = Some f" by auto
  with r show ?thesis
    by (simp add: log_resolve_def get_execution_info_def and_then_def frame_info_def getattr_frame_def)
qed

text \<open>
  Claim C2 names \<open>AutoTracker.get_execution_info\<close>, which the package defines twice. The one
  of \<open>loggers.py\<close> returns a context on every stack (\<open>get_execution_info_total\<close>). The one of
  \<open>logging.py\<close> does not: called with fewer than three frames behind its own, here from the
  top level of a module, it raises \<open>AttributeError\<close> where the claim asks for a context.
\<close>

theorem legacy_get_execution_info_raises:
  "legacy_get_execution_info module_level = Inl AttributeError"
  by (simp add: legacy_get_execution_info_def module_level_def getattr_frame_def and_then_def)

subsection \<open>Dispatch\<close>

lemma set_extra_keeps:
  "set_extra extra rv = Inr r \<Longrightarrow> rec_attrs rv k = Some v \<Longrightarrow> rec_attrs r k = Some v"
proof (induction extra arbitrary: rv)
  case Nil
  then show ?case by simp
next
  case (Cons a extra)
  obtain k' v' where a: "a = (k', v')" by (cases a)
  from Cons.prems(1) a have nr: "\<not> refused_key rv k'"
    and rest: "set_extra extra (rv\<lparr>rec_attrs := (rec_attrs rv)(k' \<mapsto> v')\<rparr>) = Inr r"
    by (auto split: if_splits)
  from nr Cons.prems(2) have "k' \<noteq> k" by (auto simp: refused_key_def)
  with Cons.prems(2) have "rec_attrs (rv\<lparr>rec_attrs := (rec_attrs rv)(k' \<mapsto> v')\<rparr>) k = Some v"
    by simp
  from Cons.IH[OF rest this] show ?case .
qed

lemma set_extra_fields:
  "set_extra extra rv = Inr r \<Longrightarrow>
     rec_msg r = rec_msg rv \<and> rec_name r = rec_name rv \<and> rec_lvl r = rec_lvl rv"
  by (induction extra arbitrary: rv) (auto split: if_splits)



















lemma prefix_changes: "prefix_of L @ msg \<noteq> msg"
  by (cases L) simp_all








subsection \<open>The record factory\<close>

text \<open>
  Claim C3, as the code has it: \<open>_log\<close> sets the process-wide record factory to a closure
  that holds the context of this call, runs \<open>Logger.log\<close> in that state, and sets the
  factory back to the one it read on entry, whether \<open>Logger.log\<close> returned or raised.
\<close>

theorem record_factory_swapped_and_restored:
  "\<exists>exec_info. log_resolve self back = Inr exec_info \<and>
     facade_log self back lvl msg exc_info extra w =
       (case Logger_log (lg_logger self) lvl msg exc_info extra
               (w\<lparr>logRecordFactory := record_factory exec_info (logRecordFactory w)\<rparr>) of
          (result, w2) \<Rightarrow> (result, w2\<lparr>logRecordFactory := logRecordFactory w\<rparr>)) \<and>
     logRecordFactory (snd (facade_log self back lvl msg exc_info extra w)) = logRecordFactory w"
proof -
  from log_resolve_total[of self "back"] obtain ei where ei: "log_resolve self back = Inr ei" by blast
  then show ?thesis
    by (intro exI[of _ ei])
       (simp add: facade_log_def log_install_def log_restore_def Let_def split: prod.splits)
qed

text \<open>
  The claim as stated fails: during \<open>debug("hello")\<close> called from \<open>main\<close>, line 42 of
  \<open>app\<close>, the process-wide factory is the closure of this call, and a record that any other
  logger makes in that state carries \<open>main\<close> as \<open>custom_function\<close>.
\<close>

theorem record_factory_counterexample:
  "log_resolve app_logger (method_frame app_logger ''debug'' 137 (Some app_frame)) = Inr main_info \<and>
   debug app_logger (Some app_frame) ''hello'' app_world =
     (case Logger_log ''app'' DEBUG ''Debug: hello'' False [] (snd (log_install main_info app_world)) of
        (result, w2) \<Rightarrow> (result, log_restore LogRecord w2)) \<and>
   logRecordFactory app_world = LogRecord \<and>
   logRecordFactory (snd (log_install main_info app_world)) = record_factory main_info LogRecord \<and>
   rec_attrs (call_factory (logRecordFactory (snd (log_install main_info app_world)))
                ''other'' INFO ''unrelated'' (clock app_world) None) ''custom_function'' =
     Some (PyStr ''main'')"
proof -
  have r: "log_resolve app_logger (method_frame app_logger ''debug'' 137 (Some app_frame)) = Inr main_info"
    by (simp add: resolve_caller app_frame_def main_info_def)
  have f: "logRecordFactory app_world = LogRecord" by (simp add: app_world_def fresh_def)
  have d: "debug app_logger (Some app_frame) ''hello'' app_world =
     (case Logger_log ''app'' DEBUG ''Debug: hello'' False [] (snd (log_install main_info app_world)) of
        (result, w2) \<Rightarrow> (result, log_restore LogRecord w2))"
  proof -
    have n: "lg_logger app_logger = ''app''" by (simp add: app_logger_def)
    show ?thesis by (simp add: debug_def facade_log_def r log_install_def f n Let_def)
  qed
  show ?thesis
    using r d f by (simp add: log_install_def main_info_def Let_def of_opt_str_def)
qed

text \<open>
  When two calls overlap, the second installing its factory before the first restores, and
  the first restoring before the second, the factory that is left is the closure of the
  first call.
\<close>

lemma interleaved_calls_leave_stale_factory:
  "logRecordFactory
     (log_restore (fst (log_install eiB (snd (log_install eiA w))))
        (log_restore (fst (log_install eiA w))
           (snd (log_install eiB (snd (log_install eiA w)))))) =
   record_factory eiA (logRecordFactory w)"
  by (simp add: log_install_def log_restore_def Let_def)

subsection \<open>The database sink\<close>

lemma PostgreSQLLogger_init_db:
  "PostgreSQLLogger_init (Some ''db'') (Some ''local'') fresh = (Inr db_logger, db_world)"
  by (simp add: PostgreSQLLogger_init_def PostgreSQLLogger_setup_logger_def name_or_module_def
      remove_handlers_def add_console_def new_handler_def addHandler_def fresh_def db_logger_def
      db_world_def db0_def console1_def Let_def)

lemma format_info_record: "format_record True info_record = Inr info_entry"
  by (simp add: info_record_def built_record_def main_info_def db_logger_def db_world_def fresh_def
      info_entry_def eval_defs show_int_42)




lemma format_record_contains_msg:
  assumes "format_record b r = Inr entry"
  shows "\<exists>before after. entry = before @ rec_msg r @ after"
proof -
  define P where "P = (if b then rec_asctime r @ '' - '' else []) @ rec_name r @ '' - ''
                        @ getLevelName (rec_lvl r) @ '' - ''"
  from assms obtain m f ln where
    "record_field r ''custom_module'' = Inr m" "record_field r ''custom_function'' = Inr f"
    and e: "entry = (case rec_exc_info r of
                 None \<Rightarrow> P @ rec_msg r @ '' -> '' @ percent_s m @ '' - '' @ percent_s f @ '' - '' @ ln
               | Some t \<Rightarrow> if t = [] then P @ rec_msg r @ '' -> '' @ percent_s m @ '' - '' @ percent_s f @ '' - '' @ ln
                    else P @ rec_msg r @ '' -> '' @ percent_s m @ '' - '' @ percent_s f @ '' - '' @ ln @ ''\<newline>'' @ t)"
    by (auto simp: format_record_def and_then_def Let_def P_def split: sum.splits option.splits)
  show ?thesis
  proof (cases "rec_exc_info r")
    case None
    with e show ?thesis by auto
  next
    case (Some t)
    with e show ?thesis by (cases "t = []") auto
  qed
qed

text \<open>
  Claim C5, as the code has it: when the record formats and the commit succeeds, \<open>emit\<close>
  commits exactly one row. Its \<open>name_logger\<close> and \<open>level\<close> are the record's name and
  level name; its \<open>message\<close> is the formatted line of the handler's formatter, in which
  the record's message text occurs; each of the eight other columns holds the record's
  attribute when the record has it, and otherwise \<open>"NA"\<close>, or \<open>-1\<close> for \<open>lineno\<close>,
  not null.
\<close>

theorem emit_row:
  assumes "format_record (h_asctime h) r = Inr entry" and "\<not> commit_fails w"
  shows "\<exists>row. SQLAlchemyLogHandler_emit h r w = (Inr (), w\<lparr>db_rows := db_rows w @ [row]\<rparr>) \<and>
     name_logger row = PyStr (rec_name r) \<and>
     level_col row = PyStr (getLevelName (rec_lvl r)) \<and>
     message row = PyStr entry \<and> (\<exists>before after. entry = before @ rec_msg r @ after) \<and>
     module_col row = (case rec_attrs r ''custom_module'' of None \<Rightarrow> PyStr ''NA'' | Some v \<Rightarrow> v) \<and>
     classname row = (case rec_attrs r ''custom_class'' of None \<Rightarrow> PyStr ''NA'' | Some v \<Rightarrow> v) \<and>
     func_name row = (case rec_attrs r ''custom_function'' of None \<Rightarrow> PyStr ''NA'' | Some v \<Rightarrow> v) \<and>
     lineno row = (case rec_attrs r ''custom_lineno'' of None \<Rightarrow> PyInt (- 1) | Some v \<Rightarrow> v) \<and>
     error_type_col row = (case rec_attrs r ''error_type'' of None \<Rightarrow> PyStr ''NA'' | Some v \<Rightarrow> v) \<and>
     error_message_col row = (case rec_attrs r ''error_message'' of None \<Rightarrow> PyStr ''NA'' | Some v \<Rightarrow> v) \<and>
     error_args_col row = (case rec_attrs r ''error_args'' of None \<Rightarrow> PyStr ''NA'' | Some v \<Rightarrow> v) \<and>
     error_traceback_col row = (case rec_attrs r ''error_traceback'' of None \<Rightarrow> PyStr ''NA'' | Some v \<Rightarrow> v)"
  using assms format_record_contains_msg[OF assms(1)]
  by (intro exI[of _ "row_of r entry"])
     (simp add: SQLAlchemyLogHandler_emit_def store_log_cases row_of_def getattr_record_def)

theorem emit_row_witness:
  "format_record (h_asctime db0) info_record = Inr info_entry \<and> \<not> commit_fails db_world \<and>
   (\<exists>row. SQLAlchemyLogHandler_emit db0 info_record db_world =
        (Inr (), db_world\<lparr>db_rows := db_rows db_world @ [row]\<rparr>) \<and>
      name_logger row = PyStr ''db'' \<and> level_col row = PyStr ''INFO'' \<and>
      message row = PyStr info_entry \<and> module_col row = PyStr ''app'' \<and>
      classname row = PyStr ''NA'' \<and> func_name row = PyStr ''main'' \<and> lineno row = PyInt 42 \<and>
      error_type_col row = PyStr ''NA'' \<and> error_message_col row = PyStr ''NA'' \<and>
      error_args_col row = PyStr ''NA'' \<and> error_traceback_col row = PyStr ''NA'')"
proof -
  have f: "format_record (h_asctime db0) info_record = Inr info_entry"
    using format_info_record by (simp add: db0_def)
  have c: "\<not> commit_fails db_world" by (simp add: db_world_def fresh_def)
  from emit_row [OF f c] obtain row where
    "SQLAlchemyLogHandler_emit db0 info_record db_world =
        (Inr (), db_world\<lparr>db_rows := db_rows db_world @ [row]\<rparr>)"
    "name_logger row = PyStr (rec_name info_record)"
    "level_col row = PyStr (getLevelName (rec_lvl info_record))"
    "message row = PyStr info_entry"
    "module_col row = (case rec_attrs info_record ''custom_module'' of None \<Rightarrow> PyStr ''NA'' | Some v \<Rightarrow> v)"
    "classname row = (case rec_attrs info_record ''custom_class'' of None \<Rightarrow> PyStr ''NA'' | Some v \<Rightarrow> v)"
    "func_name row = (case rec_attrs info_record ''custom_function'' of None \<Rightarrow> PyStr ''NA'' | Some v \<Rightarrow> v)"
    "lineno row = (case rec_attrs info_record ''custom_lineno'' of None \<Rightarrow> PyInt (- 1) | Some v \<Rightarrow> v)"
    "error_type_col row = (case rec_attrs info_record ''error_type'' of None \<Rightarrow> PyStr ''NA'' | Some v \<Rightarrow> v)"
    "error_message_col row = (case rec_attrs info_record ''error_message'' of None \<Rightarrow> PyStr ''NA'' | Some v \<Rightarrow> v)"
    "error_args_col row = (case rec_attrs info_record ''error_args'' of None \<Rightarrow> PyStr ''NA'' | Some v \<Rightarrow> v)"
    "error_traceback_col row = (case rec_attrs info_record ''error_traceback'' of None \<Rightarrow> PyStr ''NA'' | Some v \<Rightarrow> v)"
    by blast
  then have "SQLAlchemyLogHandler_emit db0 info_record db_world =
        (Inr (), db_world\<lparr>db_rows := db_rows db_world @ [row]\<rparr>) \<and>
      name_logger row = PyStr ''db'' \<and> level_col row = PyStr ''INFO'' \<and>
      message row = PyStr info_entry \<and> module_col row = PyStr ''app'' \<and>
      classname row = PyStr ''NA'' \<and> func_name row = PyStr ''main'' \<and> lineno row = PyInt 42 \<and>
      error_type_col row = PyStr ''NA'' \<and> error_message_col row = PyStr ''NA'' \<and>
      error_args_col row = PyStr ''NA'' \<and> error_traceback_col row = PyStr ''NA''"
    by (simp add: info_record_def built_record_def main_info_def db_logger_def db_world_def
        fresh_def of_opt_str_def of_opt_int_def Let_def)
  with f c show ?thesis by blast
qed

text \<open>
  The claim as stated fails on the record of \<open>info("hello")\<close>: it has no
  \<open>custom_class\<close> and no error attributes, the row has \<open>"NA"\<close> in those columns, and the
  \<open>message\<close> column has the whole formatted line.
\<close>

theorem emit_row_counterexample:
  "rec_attrs info_record ''custom_class'' = None \<and> rec_attrs info_record ''error_type'' = None \<and>
   rec_msg info_record = ''Info: hello'' \<and>
   db_rows (snd (SQLAlchemyLogHandler_emit db0 info_record db_world)) =
     [\<lparr>name_logger = PyStr ''db'', level_col = PyStr ''INFO'',
       message = PyStr ''2024-01-01 00:00:00,000 - db - INFO - Info: hello -> app - main - 42'',
       module_col = PyStr ''app'', classname = PyStr ''NA'', func_name = PyStr ''main'',
       lineno = PyInt 42, error_type_col = PyStr ''NA'', error_message_col = PyStr ''NA'',
       error_args_col = PyStr ''NA'', error_traceback_col = PyStr ''NA''\<rparr>]"
  by (simp add: info_record_def built_record_def main_info_def db_logger_def db_world_def fresh_def
      db0_def eval_defs show_int_42)

subsection \<open>Failures of sinks\<close>










subsection \<open>The registry\<close>








subsection \<open>Error capture\<close>




text \<open>\<open>capture_error\<close> raises exactly when \<open>str(error)\<close> does, with the same exception.\<close>

lemma capture_error_raises_iff: "capture_error e = Inl err \<longleftrightarrow> exc_str e = Inl err"
  by (cases "exc_str e") (simp_all add: capture_error_def and_then_def)



end
